theory Spec2Isabelle
  imports Complex_Main "HOL-Library.Word"
begin

section \<open>Go values shared by the packages\<close>

text \<open>
  A \<open>context.Context\<close> is only threaded through every call; the model keeps it as an
  opaque token so that "forwarded unmodified" also covers the context.
\<close>

type_synonym ctx = nat

text \<open>
  A \<open>float64\<close> is passed through and compared with zero, nothing else. The
  constructors keep the cases the comparison \<open>x != 0\<close> distinguishes: both zeros compare
  equal to zero, a NaN and the infinities do not. \<open>Finite r\<close> over-approximates the
  finite floats by the reals. Go's \<open>int\<close> is passed through and compared with zero only,
  and is an \<open>int\<close> here.
\<close>

datatype float64 = Finite real | NegZero | PosInf | NegInf | NaN

definition f64_ne_zero :: "float64 \<Rightarrow> bool" where
  "f64_ne_zero x = (x \<noteq> Finite 0 \<and> x \<noteq> NegZero)"

text \<open>
  A value of type \<open>interface{}\<close>, by what the type assertions of package base can see of
  it: the nil interface, a concrete Base implementation (a driver, by its identity), a
  pointer to a \<open>reconfigurableBase\<close> (by its address), or a value of any other dynamic
  type (by the name \<open>%T\<close> prints for it).
\<close>

datatype val = VNil | VImpl nat | VReconf nat | VOther string

text \<open>
  The \<open>actual\<close> field of a \<open>reconfigurableBase\<close>. Its Go type is the interface Base; the
  exported constructors only ever store a driver in it (WrapWithReconfigurable returns an
  existing wrapper instead of nesting it, Reconfigure copies another wrapper's field), and
  the zero value of the struct holds nil.
\<close>

datatype base = NoBase | Impl nat

text \<open>
  A Go \<open>error\<close>: the message of an error a driver or a connection returned, or one of
  the two errors package base builds with \<open>errors.Errorf\<close>, kept with the value whose type
  the message prints.
\<close>

datatype error =
    Err string
  | ExpectedBase val
  | ExpectedReconfigurableBase val

type_synonym err = "error option"

text \<open>What a call does besides changing the state: it returns, or it panics.\<close>

datatype 'a outcome = Panic | Ret 'a

section \<open>Package base\<close>

subsection \<open>Drivers\<close>

text \<open>
  The Base interface, as the calls that can reach a driver. \<open>CloseC\<close> is the release
  hook \<open>viamutils.TryClose\<close> looks for.
\<close>

datatype call =
    MoveStraightC ctx int float64 bool
  | MoveArcC ctx int float64 float64 bool
  | SpinC ctx float64 float64 bool
  | StopC ctx
  | WidthGetC ctx
  | CloseC ctx

type_synonym event = "nat \<times> call"

text \<open>
  Drivers are not part of the package: they are a parameter. A driver is stateful, so what
  a method returns may depend on every call made so far (to any driver), besides the
  driver and the arguments. \<open>drv_closer d\<close> says whether the type of driver \<open>d\<close> has the
  Close method.
\<close>

record drivers =
  drv_MoveStraight :: "event list \<Rightarrow> nat \<Rightarrow> ctx \<Rightarrow> int \<Rightarrow> float64 \<Rightarrow> bool \<Rightarrow> err"
  drv_MoveArc :: "event list \<Rightarrow> nat \<Rightarrow> ctx \<Rightarrow> int \<Rightarrow> float64 \<Rightarrow> float64 \<Rightarrow> bool \<Rightarrow> err"
  drv_Spin :: "event list \<Rightarrow> nat \<Rightarrow> ctx \<Rightarrow> float64 \<Rightarrow> float64 \<Rightarrow> bool \<Rightarrow> err"
  drv_Stop :: "event list \<Rightarrow> nat \<Rightarrow> ctx \<Rightarrow> err"
  drv_WidthGet :: "event list \<Rightarrow> nat \<Rightarrow> ctx \<Rightarrow> int \<times> err"
  drv_closer :: "nat \<Rightarrow> bool"
  drv_Close :: "event list \<Rightarrow> nat \<Rightarrow> ctx \<Rightarrow> err"

text \<open>
  The state: the \<open>reconfigurableBase\<close> objects allocated so far (the address of an
  object is its index, its entry is its \<open>actual\<close> field), the calls that reached the
  drivers, in order, and the errors written to \<open>rlog.Logger\<close>. An address outside the heap
  stands for the nil pointer. The model is sequential: the mutex of a wrapper is taken
  at the start of each method and released by \<open>defer\<close> when it returns or panics, so it is
  free between any two calls and is left out.
\<close>

record world =
  heap :: "base list"
  trace :: "event list"
  errlog :: "error list"

definition invoke :: "world \<Rightarrow> nat \<Rightarrow> call \<Rightarrow> world" where
  "invoke w d c = w\<lparr>trace := trace w @ [(d, c)]\<rparr>"

subsection \<open>A method call on the held instance\<close>

text \<open>\<open>r.actual.M(...)\<close>: a method call on a nil interface panics.\<close>

definition actual_MoveStraight ::
  "drivers \<Rightarrow> world \<Rightarrow> base \<Rightarrow> ctx \<Rightarrow> int \<Rightarrow> float64 \<Rightarrow> bool \<Rightarrow> err outcome \<times> world" where
  "actual_MoveStraight E w a c distanceMillis millisPerSec block =
     (case a of
        NoBase \<Rightarrow> (Panic, w)
      | Impl d \<Rightarrow>
          (Ret (drv_MoveStraight E (trace w) d c distanceMillis millisPerSec block),
           invoke w d (MoveStraightC c distanceMillis millisPerSec block)))"

definition actual_MoveArc ::
  "drivers \<Rightarrow> world \<Rightarrow> base \<Rightarrow> ctx \<Rightarrow> int \<Rightarrow> float64 \<Rightarrow> float64 \<Rightarrow> bool
     \<Rightarrow> err outcome \<times> world" where
  "actual_MoveArc E w a c distanceMillis millisPerSec degsPerSec block =
     (case a of
        NoBase \<Rightarrow> (Panic, w)
      | Impl d \<Rightarrow>
          (Ret (drv_MoveArc E (trace w) d c distanceMillis millisPerSec degsPerSec block),
           invoke w d (MoveArcC c distanceMillis millisPerSec degsPerSec block)))"

definition actual_Spin ::
  "drivers \<Rightarrow> world \<Rightarrow> base \<Rightarrow> ctx \<Rightarrow> float64 \<Rightarrow> float64 \<Rightarrow> bool \<Rightarrow> err outcome \<times> world" where
  "actual_Spin E w a c angleDeg degsPerSec block =
     (case a of
        NoBase \<Rightarrow> (Panic, w)
      | Impl d \<Rightarrow>
          (Ret (drv_Spin E (trace w) d c angleDeg degsPerSec block),
           invoke w d (SpinC c angleDeg degsPerSec block)))"

definition actual_Stop :: "drivers \<Rightarrow> world \<Rightarrow> base \<Rightarrow> ctx \<Rightarrow> err outcome \<times> world" where
  "actual_Stop E w a c =
     (case a of
        NoBase \<Rightarrow> (Panic, w)
      | Impl d \<Rightarrow> (Ret (drv_Stop E (trace w) d c), invoke w d (StopC c)))"

definition actual_WidthGet ::
  "drivers \<Rightarrow> world \<Rightarrow> base \<Rightarrow> ctx \<Rightarrow> (int \<times> err) outcome \<times> world" where
  "actual_WidthGet E w a c =
     (case a of
        NoBase \<Rightarrow> (Panic, w)
      | Impl d \<Rightarrow> (Ret (drv_WidthGet E (trace w) d c), invoke w d (WidthGetC c)))"

subsection \<open>reconfigurableBase\<close>

text \<open>
  Every method of the wrapper takes the read lock, which dereferences the receiver (a
  nil receiver panics), and returns what the same method of \<open>r.actual\<close> returns.
\<close>

definition reconfigurableBase_ProxyFor :: "world \<Rightarrow> nat \<Rightarrow> val outcome" where
  "reconfigurableBase_ProxyFor w r =
     (if r < length (heap w)
      then Ret (case heap w ! r of NoBase \<Rightarrow> VNil | Impl d \<Rightarrow> VImpl d)
      else Panic)"

definition reconfigurableBase_MoveStraight ::
  "drivers \<Rightarrow> world \<Rightarrow> nat \<Rightarrow> ctx \<Rightarrow> int \<Rightarrow> float64 \<Rightarrow> bool \<Rightarrow> err outcome \<times> world" where
  "reconfigurableBase_MoveStraight E w r c distanceMillis millisPerSec block =
     (if r < length (heap w)
      then actual_MoveStraight E w (heap w ! r) c distanceMillis millisPerSec block
      else (Panic, w))"

definition reconfigurableBase_MoveArc ::
  "drivers \<Rightarrow> world \<Rightarrow> nat \<Rightarrow> ctx \<Rightarrow> int \<Rightarrow> float64 \<Rightarrow> float64 \<Rightarrow> bool
     \<Rightarrow> err outcome \<times> world" where
  "reconfigurableBase_MoveArc E w r c distanceMillis millisPerSec degsPerSec block =
     (if r < length (heap w)
      then actual_MoveArc E w (heap w ! r) c distanceMillis millisPerSec degsPerSec block
      else (Panic, w))"

definition reconfigurableBase_Spin ::
  "drivers \<Rightarrow> world \<Rightarrow> nat \<Rightarrow> ctx \<Rightarrow> float64 \<Rightarrow> float64 \<Rightarrow> bool \<Rightarrow> err outcome \<times> world" where
  "reconfigurableBase_Spin E w r c angleDeg degsPerSec block =
     (if r < length (heap w)
      then actual_Spin E w (heap w ! r) c angleDeg degsPerSec block
      else (Panic, w))"

definition reconfigurableBase_Stop ::
  "drivers \<Rightarrow> world \<Rightarrow> nat \<Rightarrow> ctx \<Rightarrow> err outcome \<times> world" where
  "reconfigurableBase_Stop E w r c =
     (if r < length (heap w) then actual_Stop E w (heap w ! r) c else (Panic, w))"

definition reconfigurableBase_WidthGet ::
  "drivers \<Rightarrow> world \<Rightarrow> nat \<Rightarrow> ctx \<Rightarrow> (int \<times> err) outcome \<times> world" where
  "reconfigurableBase_WidthGet E w r c =
     (if r < length (heap w) then actual_WidthGet E w (heap w ! r) c else (Panic, w))"

subsection \<open>A method call on a value of type Base\<close>

text \<open>
  Dynamic dispatch on an interface value of static type Base: to the driver, or to the
  wrapper's method. A nil interface panics. A \<open>VOther\<close> value has no Base methods; the
  type checker keeps it out of a variable of type Base, and the model answers \<open>Panic\<close>.
\<close>

definition Base_MoveStraight ::
  "drivers \<Rightarrow> world \<Rightarrow> val \<Rightarrow> ctx \<Rightarrow> int \<Rightarrow> float64 \<Rightarrow> bool \<Rightarrow> err outcome \<times> world" where
  "Base_MoveStraight E w b c distanceMillis millisPerSec block =
     (case b of
        VImpl d \<Rightarrow> actual_MoveStraight E w (Impl d) c distanceMillis millisPerSec block
      | VReconf r \<Rightarrow> reconfigurableBase_MoveStraight E w r c distanceMillis millisPerSec block
      | _ \<Rightarrow> (Panic, w))"

definition Base_MoveArc ::
  "drivers \<Rightarrow> world \<Rightarrow> val \<Rightarrow> ctx \<Rightarrow> int \<Rightarrow> float64 \<Rightarrow> float64 \<Rightarrow> bool
     \<Rightarrow> err outcome \<times> world" where
  "Base_MoveArc E w b c distanceMillis millisPerSec degsPerSec block =
     (case b of
        VImpl d \<Rightarrow> actual_MoveArc E w (Impl d) c distanceMillis millisPerSec degsPerSec block
      | VReconf r \<Rightarrow>
          reconfigurableBase_MoveArc E w r c distanceMillis millisPerSec degsPerSec block
      | _ \<Rightarrow> (Panic, w))"

definition Base_Spin ::
  "drivers \<Rightarrow> world \<Rightarrow> val \<Rightarrow> ctx \<Rightarrow> float64 \<Rightarrow> float64 \<Rightarrow> bool \<Rightarrow> err outcome \<times> world" where
  "Base_Spin E w b c angleDeg degsPerSec block =
     (case b of
        VImpl d \<Rightarrow> actual_Spin E w (Impl d) c angleDeg degsPerSec block
      | VReconf r \<Rightarrow> reconfigurableBase_Spin E w r c angleDeg degsPerSec block
      | _ \<Rightarrow> (Panic, w))"

definition Base_Stop :: "drivers \<Rightarrow> world \<Rightarrow> val \<Rightarrow> ctx \<Rightarrow> err outcome \<times> world" where
  "Base_Stop E w b c =
     (case b of
        VImpl d \<Rightarrow> actual_Stop E w (Impl d) c
      | VReconf r \<Rightarrow> reconfigurableBase_Stop E w r c
      | _ \<Rightarrow> (Panic, w))"

definition Base_WidthGet ::
  "drivers \<Rightarrow> world \<Rightarrow> val \<Rightarrow> ctx \<Rightarrow> (int \<times> err) outcome \<times> world" where
  "Base_WidthGet E w b c =
     (case b of
        VImpl d \<Rightarrow> actual_WidthGet E w (Impl d) c
      | VReconf r \<Rightarrow> reconfigurableBase_WidthGet E w r c
      | _ \<Rightarrow> (Panic, w))"

subsection \<open>Reconfigure\<close>

text \<open>
  \<open>viamutils.TryClose\<close> belongs to another module (go.viam.com/utils): it calls the Close
  method of the target when the target's type has one and returns what Close returns,
  and returns nil without calling anything otherwise (also for a nil target).
\<close>

definition TryClose :: "drivers \<Rightarrow> world \<Rightarrow> ctx \<Rightarrow> base \<Rightarrow> err \<times> world" where
  "TryClose E w c target =
     (case target of
        NoBase \<Rightarrow> (None, w)
      | Impl d \<Rightarrow>
          (if drv_closer E d
           then (drv_Close E (trace w) d c, invoke w d (CloseC c))
           else (None, w)))"

text \<open>
  Reconfigure, in the order of the source: lock the receiver (a nil receiver panics);
  assert that \<open>newBase\<close> is a \<open>*reconfigurableBase\<close> and return the error when it is not;
  try to close the old instance and log an error of that; store the new wrapper's
  \<open>actual\<close> (a nil \<open>*reconfigurableBase\<close> panics there); return nil.
\<close>

definition reconfigurableBase_Reconfigure ::
  "drivers \<Rightarrow> world \<Rightarrow> nat \<Rightarrow> ctx \<Rightarrow> val \<Rightarrow> err outcome \<times> world" where
  "reconfigurableBase_Reconfigure E w r c newBase =
     (if \<not> r < length (heap w) then (Panic, w)
      else
        (case newBase of
           VReconf actual \<Rightarrow>
             (let (e, w1) = TryClose E w c (heap w ! r);
                  w2 = (case e of
                          None \<Rightarrow> w1
                        | Some x \<Rightarrow> w1\<lparr>errlog := errlog w1 @ [x]\<rparr>)
              in if actual < length (heap w2)
                 then (Ret None, w2\<lparr>heap := (heap w2)[r := heap w2 ! actual]\<rparr>)
                 else (Panic, w2))
         | _ \<Rightarrow> (Ret (Some (ExpectedReconfigurableBase newBase)), w)))"

subsection \<open>WrapWithReconfigurable\<close>

fun implements_Base :: "val \<Rightarrow> bool" where
  "implements_Base (VImpl d) = True"
| "implements_Base (VReconf r) = True"
| "implements_Base v = False"

text \<open>
  The source's two type assertions, in its order; the last line allocates a new
  wrapper at the next free address.
\<close>

definition WrapWithReconfigurable :: "world \<Rightarrow> val \<Rightarrow> (val \<times> err) \<times> world" where
  "WrapWithReconfigurable w r =
     (if \<not> implements_Base r then ((VNil, Some (ExpectedBase r)), w)
      else
        (case r of
           VReconf reconfigurable \<Rightarrow> ((VReconf reconfigurable, None), w)
         | VImpl d \<Rightarrow> ((VReconf (length (heap w)), None), w\<lparr>heap := heap w @ [Impl d]\<rparr>)
         | _ \<Rightarrow> ((VNil, Some (ExpectedBase r)), w)))"

subsection \<open>DoMove\<close>

record Move =
  DistanceMillis :: int
  MillisPerSec :: float64
  AngleDeg :: float64
  DegsPerSec :: float64
  Block :: bool

definition DoMove :: "drivers \<Rightarrow> world \<Rightarrow> ctx \<Rightarrow> Move \<Rightarrow> val \<Rightarrow> err outcome \<times> world" where
  "DoMove E w c move b =
     (let (r1, w1) =
            (if f64_ne_zero (AngleDeg move)
             then Base_Spin E w b c (AngleDeg move) (DegsPerSec move) (Block move)
             else (Ret None, w))
      in case r1 of
           Panic \<Rightarrow> (Panic, w1)
         | Ret (Some e) \<Rightarrow> (Ret (Some e), w1)
         | Ret None \<Rightarrow>
             (if DistanceMillis move \<noteq> 0
              then Base_MoveStraight E w1 b c (DistanceMillis move) (MillisPerSec move) (Block move)
              else (Ret None, w1)))"

section \<open>Package servo: the gRPC client\<close>

subsection \<open>Wire messages and the connection\<close>

text \<open>
  Modelled from the spec: the generated messages of package \<open>pb\<close>, which is not among
  the sources. A request carries the target instance's short name plus the method's
  arguments, a response the method's results; the angle is 32 bits wide on the wire. The
  getter of a generated message reads a nil message as the zero value.
\<close>

record ServoServiceMoveRequest =
  move_AngleDeg :: "32 word"
  move_Name :: string

record ServoServiceAngularOffsetRequest =
  offset_Name :: string

record ServoServiceAngularOffsetResponse =
  resp_AngleDeg :: "32 word"

definition GetAngleDeg :: "ServoServiceAngularOffsetResponse option \<Rightarrow> 32 word" where
  "GetAngleDeg resp = (case resp of None \<Rightarrow> 0 | Some x \<Rightarrow> resp_AngleDeg x)"

text \<open>What is asked of a connection: one of the two unary calls of the stub, or Close.\<close>

datatype wire =
    MoveW ctx ServoServiceMoveRequest
  | AngularOffsetW ctx ServoServiceAngularOffsetRequest
  | CloseW

type_synonym conn_event = "nat \<times> wire"

text \<open>
  The connection (\<open>dialer.ClientConn\<close>) and the stub over it belong to other modules:
  they are a parameter. What they answer may depend on everything asked of the
  connections so far, besides the connection and the request.
\<close>

record transport =
  rpc_Move :: "conn_event list \<Rightarrow> nat \<Rightarrow> ctx \<Rightarrow> ServoServiceMoveRequest \<Rightarrow> err"
  rpc_AngularOffset ::
    "conn_event list \<Rightarrow> nat \<Rightarrow> ctx \<Rightarrow> ServoServiceAngularOffsetRequest
       \<Rightarrow> ServoServiceAngularOffsetResponse option \<times> err"
  conn_Close :: "conn_event list \<Rightarrow> nat \<Rightarrow> err"

subsection \<open>serviceClient and client\<close>

text \<open>
  The structs. The stub of a \<open>serviceClient\<close> is the one built over its connection, and
  the logger is never used: the connection stands for all three. \<open>client\<close> embeds the
  \<open>serviceClient\<close> and adds the name.
\<close>

record serviceClient =
  conn :: nat

record client = serviceClient +
  name :: string

definition newSvcClientFromConn :: "nat \<Rightarrow> serviceClient" where
  "newSvcClientFromConn k = \<lparr> conn = k \<rparr>"

definition clientFromSvcClient :: "serviceClient \<Rightarrow> string \<Rightarrow> client" where
  "clientFromSvcClient sc n = \<lparr> conn = conn sc, name = n \<rparr>"

definition NewClientFromConn :: "nat \<Rightarrow> string \<Rightarrow> client" where
  "NewClientFromConn k n = clientFromSvcClient (newSvcClientFromConn k) n"

text \<open>\<open>grpc.Dial\<close> is outside the sources: its result is the first argument.\<close>

definition NewClient :: "error + nat \<Rightarrow> string \<Rightarrow> error + client" where
  "NewClient dialed n =
     (case dialed of
        Inl e \<Rightarrow> Inl e
      | Inr k \<Rightarrow> Inr (clientFromSvcClient (newSvcClientFromConn k) n))"


definition client_Move ::
  "transport \<Rightarrow> conn_event list \<Rightarrow> client \<Rightarrow> ctx \<Rightarrow> 8 word \<Rightarrow> err \<times> conn_event list" where
  "client_Move T h cl c angle =
     (let req = \<lparr> move_AngleDeg = ucast angle, move_Name = name cl \<rparr>;
          e = rpc_Move T h (conn cl) c req;
          h' = h @ [(conn cl, MoveW c req)]
      in case e of Some x \<Rightarrow> (Some x, h') | None \<Rightarrow> (None, h'))"

definition client_AngularOffset ::
  "transport \<Rightarrow> conn_event list \<Rightarrow> client \<Rightarrow> ctx \<Rightarrow> (8 word \<times> err) \<times> conn_event list" where
  "client_AngularOffset T h cl c =
     (let req = \<lparr> offset_Name = name cl \<rparr>;
          (resp, e) = rpc_AngularOffset T h (conn cl) c req;
          h' = h @ [(conn cl, AngularOffsetW c req)]
      in case e of
           Some x \<Rightarrow> ((0, Some x), h')
         | None \<Rightarrow> ((ucast (GetAngleDeg resp), None), h'))"


section \<open>Package sensor: the RPC server\<close>

text \<open>
  Modelled from the spec: the sensor server adapter and the subtype registry it reads.
  Package sensor's server and package subtype are not among the sources; only the
  server's test is. A Resource Name is the tuple of namespace, resource type, subtype and
  instance name (spec, section 3); a registry maps Resource Names to type-erased
  instances (section 4.1). An instance is a sensor, given by what its Readings returns
  (the message of its error, or the readings), or a value of another kind.
\<close>

record resource_Name =
  rn_namespace :: string
  rn_type :: string
  rn_subtype :: string
  rn_name :: string

definition sensor_Named :: "string \<Rightarrow> resource_Name" where
  "sensor_Named n =
     \<lparr> rn_namespace = ''rdk'', rn_type = ''component'', rn_subtype = ''sensor'',
       rn_name = n \<rparr>"

datatype resource = Sensor "string + float64 list" | NotSensor string

type_synonym registry = "(resource_Name \<times> resource) list"

text \<open>
  Modelled from the spec (section 4.4): resolve the request's name in the registry; if
  it is absent fail with "no generic sensor named X"; if the instance is not a sensor
  fail with "not a generic sensor"; otherwise call Readings and return its readings, or
  fail with the message of its error.
\<close>

definition sensorServer_Readings :: "registry \<Rightarrow> string \<Rightarrow> string + float64 list" where
  "sensorServer_Readings reg n =
     (case map_of reg (sensor_Named n) of
        None \<Rightarrow> Inl (''no generic sensor named '' @ n)
      | Some (NotSensor v) \<Rightarrow> Inl ''not a generic sensor''
      | Some (Sensor (Inl msg)) \<Rightarrow> Inl msg
      | Some (Sensor (Inr rs)) \<Rightarrow> Inr rs)"

text \<open>The test's \<open>ShouldContainSubstring\<close>.\<close>

fun is_prefix :: "string \<Rightarrow> string \<Rightarrow> bool" where
  "is_prefix [] s = True"
| "is_prefix (a # p) [] = False"
| "is_prefix (a # p) (b # s) = (a = b \<and> is_prefix p s)"

fun ShouldContainSubstring :: "string \<Rightarrow> string \<Rightarrow> bool" where
  "ShouldContainSubstring [] sub = is_prefix sub []"
| "ShouldContainSubstring (x # xs) sub =
     (is_prefix sub (x # xs) \<or> ShouldContainSubstring xs sub)"

text \<open>The registry of the test's \<open>newServer\<close>, with the two injected Readings functions.\<close>

definition test_registry :: registry where
  "test_registry =
     [ (sensor_Named ''sensor1'', Sensor (Inr [Finite 1.1, Finite 2.2])),
       (sensor_Named ''sensor2'', Sensor (Inl ''can't get readings'')),
       (sensor_Named ''sensor3'', NotSensor ''notSensor'') ]"

section \<open>Notions used to state the properties\<close>

text \<open>Whether a value is a \<open>*reconfigurableBase\<close>, the test of Reconfigure's assertion.\<close>

fun is_reconfigurableBase :: "val \<Rightarrow> bool" where
  "is_reconfigurableBase (VReconf r) = True"
| "is_reconfigurableBase v = False"

text \<open>
  The instance a method call on a Base value reaches: the driver itself, or the
  instance the wrapper holds.
\<close>

fun target :: "world \<Rightarrow> val \<Rightarrow> base" where
  "target w (VImpl d) = Impl d"
| "target w (VReconf r) = (if r < length (heap w) then heap w ! r else NoBase)"
| "target w v = NoBase"

text \<open>The calls that reached the drivers between two states.\<close>

definition new_calls :: "world \<Rightarrow> world \<Rightarrow> event list" where
  "new_calls w w' = drop (length (trace w)) (trace w')"

fun is_MoveStraight :: "call \<Rightarrow> bool" where
  "is_MoveStraight (MoveStraightC c dm mps blk) = True"
| "is_MoveStraight x = False"

section \<open>Sample drivers and states\<close>

text \<open>
  Driver 0 is a fake base that accepts everything and is 600 mm wide; driver 1 fails
  every motion with "stuck", and its Close fails with "busy". Both can be closed.
\<close>

definition sample_drivers :: drivers where
  "sample_drivers =
     \<lparr> drv_MoveStraight = (\<lambda>h d c dm mps blk. if d = 1 then Some (Err ''stuck'') else None),
       drv_MoveArc = (\<lambda>h d c dm mps dps blk. if d = 1 then Some (Err ''stuck'') else None),
       drv_Spin = (\<lambda>h d c ang dps blk. if d = 1 then Some (Err ''stuck'') else None),
       drv_Stop = (\<lambda>h d c. None),
       drv_WidthGet = (\<lambda>h d c. (if d = 1 then 0 else 600, None)),
       drv_closer = (\<lambda>d. True),
       drv_Close = (\<lambda>h d c. if d = 1 then Some (Err ''busy'') else None) \<rparr>"

definition sample_world :: world where
  "sample_world = \<lparr> heap = [Impl 0, Impl 1], trace = [], errlog = [] \<rparr>"

text \<open>
  A connection that answers every call until it is closed, reports an angle of 300 on the
  wire, and fails every call made after its Close.
\<close>

definition sample_transport :: transport where
  "sample_transport =
     \<lparr> rpc_Move = (\<lambda>h k c req.
         if (k, CloseW) \<in> set h then Some (Err ''grpc: the client connection is closing'')
         else None),
       rpc_AngularOffset = (\<lambda>h k c req.
         if (k, CloseW) \<in> set h
         then (None, Some (Err ''grpc: the client connection is closing''))
         else (Some \<lparr> resp_AngleDeg = 300 \<rparr>, None)),
       conn_Close = (\<lambda>h k. None) \<rparr>"


section \<open>The wrapper forwards every domain call\<close>

lemmas actual_defs =
  actual_MoveStraight_def actual_MoveArc_def actual_Spin_def actual_Stop_def
  actual_WidthGet_def

lemmas wrapper_defs =
  reconfigurableBase_MoveStraight_def reconfigurableBase_MoveArc_def
  reconfigurableBase_Spin_def reconfigurableBase_Stop_def reconfigurableBase_WidthGet_def

lemmas Base_defs =
  Base_MoveStraight_def Base_MoveArc_def Base_Spin_def Base_Stop_def Base_WidthGet_def

lemma Base_on_driver:
  shows "Base_MoveStraight E w (VImpl d) c dm mps blk
           = (Ret (drv_MoveStraight E (trace w) d c dm mps blk),
              invoke w d (MoveStraightC c dm mps blk))"
    and "Base_MoveArc E w (VImpl d) c dm mps dps blk
           = (Ret (drv_MoveArc E (trace w) d c dm mps dps blk),
              invoke w d (MoveArcC c dm mps dps blk))"
    and "Base_Spin E w (VImpl d) c ang dps blk
           = (Ret (drv_Spin E (trace w) d c ang dps blk), invoke w d (SpinC c ang dps blk))"
    and "Base_Stop E w (VImpl d) c = (Ret (drv_Stop E (trace w) d c), invoke w d (StopC c))"
    and "Base_WidthGet E w (VImpl d) c
           = (Ret (drv_WidthGet E (trace w) d c), invoke w d (WidthGetC c))"
  by (simp_all add: Base_defs actual_defs)

lemma wrapper_on_held:
  assumes "r < length (heap w)" and "heap w ! r = Impl d"
  shows "reconfigurableBase_MoveStraight E w r c dm mps blk
           = Base_MoveStraight E w (VImpl d) c dm mps blk"
    and "reconfigurableBase_MoveArc E w r c dm mps dps blk
           = Base_MoveArc E w (VImpl d) c dm mps dps blk"
    and "reconfigurableBase_Spin E w r c ang dps blk = Base_Spin E w (VImpl d) c ang dps blk"
    and "reconfigurableBase_Stop E w r c = Base_Stop E w (VImpl d) c"
    and "reconfigurableBase_WidthGet E w r c = Base_WidthGet E w (VImpl d) c"
  using assms by (simp_all add: Base_defs wrapper_defs)

lemma Base_on_wrapper:
  shows "Base_MoveStraight E w (VReconf r) c dm mps blk
           = reconfigurableBase_MoveStraight E w r c dm mps blk"
    and "Base_MoveArc E w (VReconf r) c dm mps dps blk
           = reconfigurableBase_MoveArc E w r c dm mps dps blk"
    and "Base_Spin E w (VReconf r) c ang dps blk = reconfigurableBase_Spin E w r c ang dps blk"
    and "Base_Stop E w (VReconf r) c = reconfigurableBase_Stop E w r c"
    and "Base_WidthGet E w (VReconf r) c = reconfigurableBase_WidthGet E w r c"
  by (simp_all add: Base_defs)

text \<open>
  C5. For a wrapper \<open>r\<close> that holds the instance \<open>a\<close>, each of MoveStraight, MoveArc,
  Spin, Stop and WidthGet called on the wrapper returns, for all arguments, exactly
  what the same method called on \<open>a\<close> with the same arguments returns (the value and
  the error), and leaves the same state behind: the one call, with the same context and
  arguments, reached \<open>a\<close>.
\<close>

theorem reconfigurableBase_forwards:
  assumes "r < length (heap w)" and "heap w ! r = Impl a"
  shows "reconfigurableBase_MoveStraight E w r c dm mps blk
           = Base_MoveStraight E w (VImpl a) c dm mps blk
       \<and> reconfigurableBase_MoveArc E w r c dm mps dps blk
           = Base_MoveArc E w (VImpl a) c dm mps dps blk
       \<and> reconfigurableBase_Spin E w r c ang dps blk
           = Base_Spin E w (VImpl a) c ang dps blk
       \<and> reconfigurableBase_Stop E w r c = Base_Stop E w (VImpl a) c
       \<and> reconfigurableBase_WidthGet E w r c = Base_WidthGet E w (VImpl a) c
       \<and> reconfigurableBase_MoveStraight E w r c dm mps blk
           = (Ret (drv_MoveStraight E (trace w) a c dm mps blk),
              invoke w a (MoveStraightC c dm mps blk))
       \<and> reconfigurableBase_MoveArc E w r c dm mps dps blk
           = (Ret (drv_MoveArc E (trace w) a c dm mps dps blk),
              invoke w a (MoveArcC c dm mps dps blk))
       \<and> reconfigurableBase_Spin E w r c ang dps blk
           = (Ret (drv_Spin E (trace w) a c ang dps blk), invoke w a (SpinC c ang dps blk))
       \<and> reconfigurableBase_Stop E w r c
           = (Ret (drv_Stop E (trace w) a c), invoke w a (StopC c))
       \<and> reconfigurableBase_WidthGet E w r c
           = (Ret (drv_WidthGet E (trace w) a c), invoke w a (WidthGetC c))"
  using assms by (simp add: wrapper_on_held Base_on_driver)

theorem reconfigurableBase_forwards_witness:
  "1 < length (heap sample_world) \<and> heap sample_world ! 1 = Impl 1
   \<and> reconfigurableBase_Spin sample_drivers sample_world 1 7 (Finite 90) (Finite 45) True
       = (Ret (Some (Err ''stuck'')),
          \<lparr> heap = [Impl 0, Impl 1], trace = [(1, SpinC 7 (Finite 90) (Finite 45) True)],
            errlog = [] \<rparr>)
   \<and> reconfigurableBase_WidthGet sample_drivers sample_world 0 7
       = (Ret (600, None),
          \<lparr> heap = [Impl 0, Impl 1], trace = [(0, WidthGetC 7)], errlog = [] \<rparr>)"
  using reconfigurableBase_forwards [where r = 1 and w = sample_world and a = 1
      and E = sample_drivers and c = 7 and ang = "Finite 90" and dps = "Finite 45"
      and blk = True]
    reconfigurableBase_forwards [where r = 0 and w = sample_world and a = 0
      and E = sample_drivers and c = 7]
  by (simp add: sample_world_def sample_drivers_def invoke_def Base_on_driver)

section \<open>Reconfigure\<close>

lemma Reconfigure_not_wrapper:
  assumes "r < length (heap w)" and "\<not> is_reconfigurableBase newBase"
  shows "reconfigurableBase_Reconfigure E w r c newBase
           = (Ret (Some (ExpectedReconfigurableBase newBase)), w)"
  using assms by (cases newBase) (simp_all add: reconfigurableBase_Reconfigure_def)

lemma TryClose_heap: "heap (snd (TryClose E w c t)) = heap w"
  by (simp add: TryClose_def invoke_def split: base.splits)

lemma Reconfigure_wrapper:
  assumes "r < length (heap w)" and "q < length (heap w)"
  shows "fst (reconfigurableBase_Reconfigure E w r c (VReconf q)) = Ret None"
    and "heap (snd (reconfigurableBase_Reconfigure E w r c (VReconf q)))
           = (heap w)[r := heap w ! q]"
  using assms
  by (simp_all add: reconfigurableBase_Reconfigure_def TryClose_def invoke_def Let_def
      split: base.splits option.splits prod.splits)

text \<open>
  C2. For a wrapper \<open>r\<close> that holds the instance \<open>a\<close> and a replacement value that is
  not a \<open>*reconfigurableBase\<close>, Reconfigure returns a non-nil error and changes nothing:
  the wrapper still holds \<open>a\<close>, no call (so no Close either) reached any driver,
  nothing was logged, and every domain call on the wrapper afterwards is the call on \<open>a\<close>.
\<close>

theorem Reconfigure_mismatch:
  assumes "r < length (heap w)" and "heap w ! r = Impl a"
    and "\<not> is_reconfigurableBase newBase"
    and "reconfigurableBase_Reconfigure E w r c newBase = (res, w')"
  shows "res = Ret (Some (ExpectedReconfigurableBase newBase))
       \<and> res \<noteq> Ret None
       \<and> w' = w
       \<and> heap w' ! r = Impl a
       \<and> reconfigurableBase_ProxyFor w' r = Ret (VImpl a)
       \<and> new_calls w w' = []
       \<and> reconfigurableBase_MoveStraight E w' r c' dm mps blk
           = Base_MoveStraight E w' (VImpl a) c' dm mps blk
       \<and> reconfigurableBase_MoveArc E w' r c' dm mps dps blk
           = Base_MoveArc E w' (VImpl a) c' dm mps dps blk
       \<and> reconfigurableBase_Spin E w' r c' ang dps blk
           = Base_Spin E w' (VImpl a) c' ang dps blk
       \<and> reconfigurableBase_Stop E w' r c' = Base_Stop E w' (VImpl a) c'
       \<and> reconfigurableBase_WidthGet E w' r c' = Base_WidthGet E w' (VImpl a) c'"
proof -
  from assms(1,3,4) have res: "res = Ret (Some (ExpectedReconfigurableBase newBase))"
    and same: "w' = w"
    by (simp_all add: Reconfigure_not_wrapper)
  from same assms(1,2) show ?thesis
    by (simp add: res new_calls_def reconfigurableBase_ProxyFor_def wrapper_on_held)
qed

theorem Reconfigure_mismatch_witness:
  "0 < length (heap sample_world) \<and> heap sample_world ! 0 = Impl 0
   \<and> \<not> is_reconfigurableBase (VOther ''*arm.reconfigurableArm'')
   \<and> reconfigurableBase_Reconfigure sample_drivers sample_world 0 7
         (VOther ''*arm.reconfigurableArm'')
       = (Ret (Some (ExpectedReconfigurableBase (VOther ''*arm.reconfigurableArm''))),
          sample_world)
   \<and> reconfigurableBase_ProxyFor sample_world 0 = Ret (VImpl 0)"
  using Reconfigure_mismatch [where r = 0 and w = sample_world and a = 0
      and newBase = "VOther ''*arm.reconfigurableArm''" and E = sample_drivers and c = 7
      and res = "Ret (Some (ExpectedReconfigurableBase (VOther ''*arm.reconfigurableArm'')))"
      and w' = sample_world]
  by (simp add: sample_world_def reconfigurableBase_Reconfigure_def)

text \<open>
  C3. For a wrapper \<open>r\<close> and a wrapper \<open>q\<close> that holds the instance \<open>b\<close>, Reconfigure of
  \<open>r\<close> with \<open>q\<close> returns nil, and afterwards \<open>r\<close> holds \<open>b\<close>: ProxyFor returns \<open>b\<close> and
  every domain call on \<open>r\<close> is the call on \<open>b\<close>. No other wrapper changes.
\<close>

theorem Reconfigure_swaps:
  assumes "r < length (heap w)" and "q < length (heap w)" and "heap w ! q = Impl b"
    and "reconfigurableBase_Reconfigure E w r c (VReconf q) = (res, w')"
  shows "res = Ret None
       \<and> heap w' = (heap w)[r := Impl b]
       \<and> reconfigurableBase_ProxyFor w' r = Ret (VImpl b)
       \<and> reconfigurableBase_MoveStraight E w' r c' dm mps blk
           = Base_MoveStraight E w' (VImpl b) c' dm mps blk
       \<and> reconfigurableBase_MoveArc E w' r c' dm mps dps blk
           = Base_MoveArc E w' (VImpl b) c' dm mps dps blk
       \<and> reconfigurableBase_Spin E w' r c' ang dps blk
           = Base_Spin E w' (VImpl b) c' ang dps blk
       \<and> reconfigurableBase_Stop E w' r c' = Base_Stop E w' (VImpl b) c'
       \<and> reconfigurableBase_WidthGet E w' r c' = Base_WidthGet E w' (VImpl b) c'"
proof -
  from Reconfigure_wrapper [OF assms(1,2), of E c] assms(3,4)
  have res: "res = Ret None" and h: "heap w' = (heap w)[r := Impl b]"
    by simp_all
  from h assms(1) have len: "r < length (heap w')" and held: "heap w' ! r = Impl b"
    by simp_all
  from len held show ?thesis
    by (simp add: res h reconfigurableBase_ProxyFor_def wrapper_on_held)
qed

theorem Reconfigure_swaps_witness:
  "0 < length (heap sample_world) \<and> 1 < length (heap sample_world)
   \<and> heap sample_world ! 1 = Impl 1
   \<and> reconfigurableBase_Reconfigure sample_drivers sample_world 0 7 (VReconf 1)
       = (Ret None, \<lparr> heap = [Impl 1, Impl 1], trace = [(0, CloseC 7)], errlog = [] \<rparr>)
   \<and> reconfigurableBase_ProxyFor
         \<lparr> heap = [Impl 1, Impl 1], trace = [(0, CloseC 7)], errlog = [] \<rparr> 0
       = Ret (VImpl 1)"
  using Reconfigure_swaps [where r = 0 and q = 1 and w = sample_world and b = 1
      and E = sample_drivers and c = 7 and res = "Ret None"
      and w' = "\<lparr> heap = [Impl 1, Impl 1], trace = [(0, CloseC 7)], errlog = [] \<rparr>"]
  by (simp add: sample_world_def sample_drivers_def reconfigurableBase_Reconfigure_def
      TryClose_def invoke_def)

text \<open>
  C4. For a wrapper \<open>r\<close> that holds the instance \<open>a\<close> and a replacement wrapper \<open>q\<close>:
  when closing \<open>a\<close> fails with the error \<open>e\<close> during Reconfigure, the error is written to
  the log and not returned; Reconfigure returns nil and \<open>r\<close> holds the instance of \<open>q\<close>
  afterwards.
\<close>

theorem Reconfigure_close_failure_absorbed:
  assumes "r < length (heap w)" and "q < length (heap w)" and "heap w ! r = Impl a"
    and "drv_closer E a" and "drv_Close E (trace w) a c = Some e"
  shows "reconfigurableBase_Reconfigure E w r c (VReconf q)
           = (Ret None,
              \<lparr> heap = (heap w)[r := heap w ! q],
                trace = trace w @ [(a, CloseC c)],
                errlog = errlog w @ [e] \<rparr>)"
  using assms
  by (simp add: reconfigurableBase_Reconfigure_def TryClose_def invoke_def)

theorem Reconfigure_close_failure_absorbed_witness:
  "1 < length (heap sample_world) \<and> 0 < length (heap sample_world)
   \<and> heap sample_world ! 1 = Impl 1 \<and> drv_closer sample_drivers 1
   \<and> drv_Close sample_drivers (trace sample_world) 1 7 = Some (Err ''busy'')
   \<and> reconfigurableBase_Reconfigure sample_drivers sample_world 1 7 (VReconf 0)
       = (Ret None,
          \<lparr> heap = [Impl 0, Impl 0], trace = [(1, CloseC 7)], errlog = [Err ''busy''] \<rparr>)"
  using Reconfigure_close_failure_absorbed [where r = 1 and q = 0 and w = sample_world
      and a = 1 and E = sample_drivers and c = 7 and e = "Err ''busy''"]
  by (simp add: sample_world_def sample_drivers_def)

section \<open>WrapWithReconfigurable\<close>

text \<open>
  C9. WrapWithReconfigurable returns a value that already is a wrapper as it is and
  allocates nothing; for a driver it returns a new wrapper that holds the driver, and
  wrapping the result again returns the same wrapper and allocates nothing; for a value
  that is no Base (the nil interface, a value of another type) it returns no wrapper and
  a non-nil error, and allocates nothing.
\<close>

theorem WrapWithReconfigurable_guarded:
  "WrapWithReconfigurable w (VReconf p) = ((VReconf p, None), w)
   \<and> WrapWithReconfigurable w (VImpl d)
       = ((VReconf (length (heap w)), None), w\<lparr>heap := heap w @ [Impl d]\<rparr>)
   \<and> reconfigurableBase_ProxyFor (snd (WrapWithReconfigurable w (VImpl d))) (length (heap w))
       = Ret (VImpl d)
   \<and> WrapWithReconfigurable (snd (WrapWithReconfigurable w (VImpl d)))
         (fst (fst (WrapWithReconfigurable w (VImpl d))))
       = ((VReconf (length (heap w)), None), snd (WrapWithReconfigurable w (VImpl d)))
   \<and> WrapWithReconfigurable w VNil = ((VNil, Some (ExpectedBase VNil)), w)
   \<and> WrapWithReconfigurable w (VOther t) = ((VNil, Some (ExpectedBase (VOther t))), w)"
  by (simp add: WrapWithReconfigurable_def reconfigurableBase_ProxyFor_def)

section \<open>DoMove\<close>

lemma Base_on_target:
  assumes "target w b = Impl d"
  shows "Base_Spin E w b c ang dps blk = Base_Spin E w (VImpl d) c ang dps blk"
    and "Base_MoveStraight E w b c dm mps blk = Base_MoveStraight E w (VImpl d) c dm mps blk"
  using assms
  by (cases b; simp add: Base_on_wrapper wrapper_on_held split: if_splits)+

lemma DoMove_on_target:
  assumes "target w b = Impl d"
  shows "DoMove E w c m b = DoMove E w c m (VImpl d)"
proof -
  have spin: "Base_Spin E w b c ang dps blk = Base_Spin E w (VImpl d) c ang dps blk"
    for ang dps blk
    using assms by (rule Base_on_target)
  have "target w' b = Impl d" if "heap w' = heap w" for w'
    using assms that by (cases b) (simp_all split: if_splits)
  then have straight: "Base_MoveStraight E w' b c dm mps blk
      = Base_MoveStraight E w' (VImpl d) c dm mps blk" if "heap w' = heap w" for w' dm mps blk
    using that by (intro Base_on_target) simp
  have frame: "heap (snd (Base_Spin E w (VImpl d) c ang dps blk)) = heap w" for ang dps blk
    by (simp add: Base_on_driver invoke_def)
  show ?thesis
  proof (cases "f64_ne_zero (AngleDeg m)")
    case True
    obtain r1 w1 where s: "Base_Spin E w (VImpl d) c (AngleDeg m) (DegsPerSec m) (Block m)
        = (r1, w1)"
      by (cases "Base_Spin E w (VImpl d) c (AngleDeg m) (DegsPerSec m) (Block m)")
    with frame [of "AngleDeg m" "DegsPerSec m" "Block m"] have "heap w1 = heap w"
      by simp
    then have "Base_MoveStraight E w1 b c dm mps blk
        = Base_MoveStraight E w1 (VImpl d) c dm mps blk" for dm mps blk
      by (rule straight)
    with True s show ?thesis
      by (simp add: DoMove_def spin split: outcome.splits option.splits)
  next
    case False
    then show ?thesis
      by (simp add: DoMove_def straight)
  qed
qed

text \<open>
  C10. For a Move \<open>m\<close> and a base \<open>b\<close> whose calls reach the driver \<open>d\<close> (the driver
  itself, or a wrapper that holds it), the calls DoMove makes are, in this order: Spin,
  when \<open>AngleDeg\<close> is not zero; then MoveStraight, when \<open>DistanceMillis\<close> is not zero and
  Spin was not called or returned nil. When Spin returns an error DoMove returns it and
  MoveStraight is not called; otherwise DoMove returns what MoveStraight returns, or nil
  when it is not called. With a zero distance no MoveStraight call is made.
\<close>

theorem DoMove_calls:
  assumes "target w b = Impl d" and "DoMove E w c m b = (res, w')"
  shows "new_calls w w'
           = (if f64_ne_zero (AngleDeg m)
              then [(d, SpinC c (AngleDeg m) (DegsPerSec m) (Block m))] else [])
           @ (if (f64_ne_zero (AngleDeg m)
                    \<longrightarrow> drv_Spin E (trace w) d c (AngleDeg m) (DegsPerSec m) (Block m) = None)
                  \<and> DistanceMillis m \<noteq> 0
              then [(d, MoveStraightC c (DistanceMillis m) (MillisPerSec m) (Block m))]
              else [])
       \<and> trace w' = trace w @ new_calls w w'
       \<and> heap w' = heap w \<and> errlog w' = errlog w
       \<and> res
           = (if f64_ne_zero (AngleDeg m)
                \<and> drv_Spin E (trace w) d c (AngleDeg m) (DegsPerSec m) (Block m) \<noteq> None
              then Ret (drv_Spin E (trace w) d c (AngleDeg m) (DegsPerSec m) (Block m))
              else if DistanceMillis m \<noteq> 0
              then Ret (drv_MoveStraight E
                     (trace w @ (if f64_ne_zero (AngleDeg m)
                        then [(d, SpinC c (AngleDeg m) (DegsPerSec m) (Block m))] else []))
                     d c (DistanceMillis m) (MillisPerSec m) (Block m))
              else Ret None)
       \<and> (DistanceMillis m = 0
            \<longrightarrow> filter (\<lambda>ev. is_MoveStraight (snd ev)) (new_calls w w') = [])"
proof -
  from assms(1) have "DoMove E w c m b = DoMove E w c m (VImpl d)"
    by (rule DoMove_on_target)
  with assms(2) have run: "DoMove E w c m (VImpl d) = (res, w')"
    by simp
  show ?thesis
  proof (cases "f64_ne_zero (AngleDeg m)")
    case spin: True
    show ?thesis
    proof (cases "drv_Spin E (trace w) d c (AngleDeg m) (DegsPerSec m) (Block m)")
      case (Some e)
      with spin run have "res = Ret (Some e)"
        and "w' = invoke w d (SpinC c (AngleDeg m) (DegsPerSec m) (Block m))"
        by (simp_all add: DoMove_def Base_on_driver(1,3))
      with spin Some show ?thesis
        by (simp add: invoke_def new_calls_def)
    next
      case None
      show ?thesis
      proof (cases "DistanceMillis m = 0")
        case True
        with spin None run have "res = Ret None"
          and "w' = invoke w d (SpinC c (AngleDeg m) (DegsPerSec m) (Block m))"
          by (simp_all add: DoMove_def Base_on_driver(1,3))
        with spin None True show ?thesis
          by (simp add: invoke_def new_calls_def)
      next
        case False
        with spin None run
        have "res = Ret (drv_MoveStraight E
                 (trace w @ [(d, SpinC c (AngleDeg m) (DegsPerSec m) (Block m))])
                 d c (DistanceMillis m) (MillisPerSec m) (Block m))"
          and "w' = invoke (invoke w d (SpinC c (AngleDeg m) (DegsPerSec m) (Block m))) d
                 (MoveStraightC c (DistanceMillis m) (MillisPerSec m) (Block m))"
          by (simp_all add: DoMove_def Base_on_driver(1,3) invoke_def)
        with spin None False show ?thesis
          by (simp add: invoke_def new_calls_def)
      qed
    qed
  next
    case nospin: False
    show ?thesis
    proof (cases "DistanceMillis m = 0")
      case True
      with nospin run have "res = Ret None" and "w' = w"
        by (simp_all add: DoMove_def Base_on_driver(1,3))
      with nospin True show ?thesis
        by (simp add: new_calls_def)
    next
      case False
      with nospin run
      have "res = Ret (drv_MoveStraight E (trace w) d c
               (DistanceMillis m) (MillisPerSec m) (Block m))"
        and "w' = invoke w d (MoveStraightC c (DistanceMillis m) (MillisPerSec m) (Block m))"
        by (simp_all add: DoMove_def Base_on_driver(1,3))
      with nospin False show ?thesis
        by (simp add: invoke_def new_calls_def)
    qed
  qed
qed

theorem DoMove_calls_witness:
  "target sample_world (VReconf 0) = Impl 0
   \<and> DoMove sample_drivers sample_world 7
         \<lparr> DistanceMillis = 0, MillisPerSec = Finite 500, AngleDeg = Finite 90,
           DegsPerSec = Finite 45, Block = True \<rparr> (VReconf 0)
       = (Ret None,
          \<lparr> heap = [Impl 0, Impl 1], trace = [(0, SpinC 7 (Finite 90) (Finite 45) True)],
            errlog = [] \<rparr>)
   \<and> new_calls sample_world
         \<lparr> heap = [Impl 0, Impl 1], trace = [(0, SpinC 7 (Finite 90) (Finite 45) True)],
           errlog = [] \<rparr>
       = [(0, SpinC 7 (Finite 90) (Finite 45) True)]"
proof -
  let ?m = "\<lparr> DistanceMillis = 0, MillisPerSec = Finite 500, AngleDeg = Finite 90,
           DegsPerSec = Finite 45, Block = True \<rparr>"
  let ?w' = "\<lparr> heap = [Impl 0, Impl 1], trace = [(0, SpinC 7 (Finite 90) (Finite 45) True)],
            errlog = [] \<rparr>"
  have t: "target sample_world (VReconf 0) = Impl 0"
    by (simp add: sample_world_def)
  have run: "DoMove sample_drivers sample_world 7 ?m (VReconf 0) = (Ret None, ?w')"
    by (simp add: DoMove_def Base_on_wrapper wrapper_defs actual_defs invoke_def f64_ne_zero_def
        sample_world_def sample_drivers_def)
  from DoMove_calls [OF t run, THEN conjunct1] have "new_calls sample_world ?w'
       = [(0, SpinC 7 (Finite 90) (Finite 45) True)]"
    by (simp add: f64_ne_zero_def)
  with t run show ?thesis by simp
qed

section \<open>The servo client\<close>

lemma narrow_8: "unat (ucast (x :: 32 word) :: 8 word) = unat x mod 256"
  by (simp add: unsigned_ucast_eq take_bit_eq_mod)

lemma widen_32: "unat (ucast (a :: 8 word) :: 32 word) = unat a"
proof -
  have "unat a < 2 ^ 8"
    using unsigned_less [of a] by simp
  then show ?thesis
    by (simp add: unsigned_ucast_eq take_bit_eq_mod)
qed

lemma widen_narrow: "(ucast (ucast (a :: 8 word) :: 32 word) :: 8 word) = a"
  by (simp add: ucast_up_ucast_id is_up)

text \<open>
  C6. When the stub returns a response without an error, AngularOffset returns the wire
  angle narrowed to 8 bits by the conversion \<open>uint8(...)\<close> and a nil error: the result is
  the wire value modulo 256, for every 32-bit wire value (a value of at most 255 is
  returned as it is, a larger one wraps around; it is not clamped to 255). The
  conversion has no failing case.
\<close>

theorem AngularOffset_narrows:
  assumes "rpc_AngularOffset T h (conn cl) c \<lparr> offset_Name = name cl \<rparr> = (resp, None)"
  shows "fst (client_AngularOffset T h cl c) = (ucast (GetAngleDeg resp), None)
       \<and> unat (fst (fst (client_AngularOffset T h cl c))) = unat (GetAngleDeg resp) mod 256
       \<and> (unat (GetAngleDeg resp) \<le> 255
            \<longrightarrow> unat (fst (fst (client_AngularOffset T h cl c))) = unat (GetAngleDeg resp))"
proof -
  from assms have r: "fst (client_AngularOffset T h cl c) = (ucast (GetAngleDeg resp), None)"
    by (simp add: client_AngularOffset_def)
  then have "unat (fst (fst (client_AngularOffset T h cl c))) = unat (GetAngleDeg resp) mod 256"
    by (simp add: narrow_8)
  with r show ?thesis
    by simp
qed

theorem AngularOffset_narrows_witness:
  "rpc_AngularOffset sample_transport [] (conn (NewClientFromConn 0 ''servo1'')) 7
       \<lparr> offset_Name = name (NewClientFromConn 0 ''servo1'') \<rparr>
     = (Some \<lparr> resp_AngleDeg = 300 \<rparr>, None)
   \<and> fst (client_AngularOffset sample_transport [] (NewClientFromConn 0 ''servo1'') 7)
     = (44, None)"
proof -
  have run: "rpc_AngularOffset sample_transport [] (conn (NewClientFromConn 0 ''servo1'')) 7
       \<lparr> offset_Name = name (NewClientFromConn 0 ''servo1'') \<rparr>
     = (Some \<lparr> resp_AngleDeg = 300 \<rparr>, None)"
    by (simp add: sample_transport_def)
  from AngularOffset_narrows [OF run, THEN conjunct1]
  have "fst (client_AngularOffset sample_transport [] (NewClientFromConn 0 ''servo1'') 7)
     = (44, None)"
    by (simp add: GetAngleDeg_def)
  with run show ?thesis by simp
qed

text \<open>
  C7. For a client built with the name \<open>n\<close> and an 8-bit angle \<open>a\<close>, Move sends one
  request, whose name is \<open>n\<close> as it was given to the constructor and whose wire angle is
  \<open>a\<close> widened to 32 bits, and returns what the stub returns for it. The widening loses
  nothing: the wire angle has the value of \<open>a\<close>, and narrowing it to 8 bits gives \<open>a\<close>
  back.
\<close>

theorem Move_request:
  "client_Move T h (NewClientFromConn k n) c a
     = (rpc_Move T h k c \<lparr> move_AngleDeg = ucast a, move_Name = n \<rparr>,
        h @ [(k, MoveW c \<lparr> move_AngleDeg = ucast a, move_Name = n \<rparr>)])
   \<and> NewClient (Inr k) n = Inr (NewClientFromConn k n)
   \<and> move_Name \<lparr> move_AngleDeg = ucast a, move_Name = n \<rparr> = n
   \<and> unat (move_AngleDeg \<lparr> move_AngleDeg = ucast a, move_Name = n \<rparr>) = unat a
   \<and> ucast (move_AngleDeg \<lparr> move_AngleDeg = ucast a, move_Name = n \<rparr>) = a"
  by (simp add: client_Move_def NewClientFromConn_def NewClient_def clientFromSvcClient_def
      newSvcClientFromConn_def widen_32 widen_narrow Let_def split: option.splits)




section \<open>The sensor server\<close>

lemma is_prefix_iff: "is_prefix p s \<longleftrightarrow> (\<exists>q. s = p @ q)"
  by (induction p s rule: is_prefix.induct) auto

lemma ShouldContainSubstring_iff:
  "ShouldContainSubstring s sub \<longleftrightarrow> (\<exists>p q. s = p @ sub @ q)"
proof (induction s)
  case Nil
  then show ?case by (cases sub) (auto simp: is_prefix_iff)
next
  case (Cons x xs)
  show ?case
  proof
    assume "ShouldContainSubstring (x # xs) sub"
    then consider "is_prefix sub (x # xs)" | "ShouldContainSubstring xs sub" by auto
    then show "\<exists>p q. x # xs = p @ sub @ q"
    proof cases
      case 1
      then obtain q where "x # xs = sub @ q" by (auto simp: is_prefix_iff)
      then have "x # xs = [] @ sub @ q" by simp
      then show ?thesis by blast
    next
      case 2
      with Cons obtain p q where "xs = p @ sub @ q" by auto
      then have "x # xs = (x # p) @ sub @ q" by simp
      then show ?thesis by blast
    qed
  next
    assume "\<exists>p q. x # xs = p @ sub @ q"
    then obtain p q where e: "x # xs = p @ sub @ q" by auto
    show "ShouldContainSubstring (x # xs) sub"
    proof (cases p)
      case Nil
      with e have "is_prefix sub (x # xs)" by (simp add: is_prefix_iff)
      then show ?thesis by simp
    next
      case (Cons y ys)
      with e have "xs = ys @ sub @ q" by simp
      with Cons.IH show ?thesis by auto
    qed
  qed
qed

text \<open>
  C1. Over the registry of the server's test (sensor1 a sensor that returns the readings
  1.1 and 2.2, sensor2 a sensor whose Readings fails with "can't get readings", sensor3
  the value "notSensor", no sensor4): Readings of sensor1 returns the readings 1.1 and
  2.2; Readings of sensor2 fails with a message that contains "can't get readings";
  Readings of sensor3 fails with a message that contains "not a generic sensor"; Readings
  of sensor4 fails with a message that contains "no generic sensor".
\<close>

theorem sensorServer_scenario:
  "sensorServer_Readings test_registry ''sensor1'' = Inr [Finite 1.1, Finite 2.2]
   \<and> (case sensorServer_Readings test_registry ''sensor2'' of
         Inl msg \<Rightarrow> ShouldContainSubstring msg ''can't get readings''
       | Inr rs \<Rightarrow> False)
   \<and> (case sensorServer_Readings test_registry ''sensor3'' of
         Inl msg \<Rightarrow> ShouldContainSubstring msg ''not a generic sensor''
       | Inr rs \<Rightarrow> False)
   \<and> (case sensorServer_Readings test_registry ''sensor4'' of
         Inl msg \<Rightarrow> ShouldContainSubstring msg ''no generic sensor''
       | Inr rs \<Rightarrow> False)"
  by (simp add: sensorServer_Readings_def test_registry_def sensor_Named_def)

end
